theory Spec2Isabelle
  imports Complex_Main "HOL-Library.Sublist"
begin

section \<open>Retry wrapper: \<open>com_retry\<close>\<close>

text \<open>
  The decorator \<open>com_retry(tentativas, espera)\<close> wraps a callable \<open>func\<close>:
  \<^verbatim>\<open>
  for i in range(tentativas):
      try:
          return func(*args, **kwargs)
      except Exception as e:
          if i == tentativas - 1:
              raise
          console.print(f"... Tentativa {i+1} falhou: {e}. Aguardando {espera}s...")
          time.sleep(espera)
  \<close>
  The wrapped operation is a network call, so it is modelled as a step on an explicit
  state \<open>'s\<close> (the world it talks to) that either returns a value or raises. Python
  separates the exceptions below \<open>Exception\<close>, which the handler catches, from the other
  \<open>BaseException\<close>s (\<open>KeyboardInterrupt\<close>, \<open>SystemExit\<close>), which pass through it.
\<close>

datatype ('a, 'e) resultado =
    Retorno 'a
  | Excecao 'e
  | Interrupcao 'e

type_synonym ('s, 'a, 'e) operacao = "'s \<Rightarrow> ('a, 'e) resultado \<times> 's"

text \<open>
  The two calls of the handler belong to libraries and can raise themselves; whatever
  they raise leaves the wrapper at once, since the handler is outside the \<open>try\<close>.
  \<^item> Building and printing the notice: the text of the exception is interpolated
    into console markup, and the console raises (a \<open>MarkupError\<close>) when that text
    holds a closing tag without its opening one, such as \<open>[/x]\<close>; \<open>str(e)\<close> may
    raise too.
  \<^item> \<open>time.sleep(espera)\<close> raises \<open>ValueError\<close> for a negative delay and
    \<open>OverflowError\<close> for one too large for the platform's clock.
  Both are parameters of the model: \<open>console_print amb n e espera\<close> and
  \<open>time_sleep amb n espera\<close> give the exception raised, if any, by the notice and by
  the sleep of attempt number \<open>n\<close>. The delay is a \<open>rat\<close>: a finite value of the float
  parameter.
\<close>

record 'e ambiente =
  console_print :: "int \<Rightarrow> 'e \<Rightarrow> rat \<Rightarrow> 'e option"
  time_sleep :: "int \<Rightarrow> rat \<Rightarrow> 'e option"

text \<open>What the wrapper leaves behind besides calling \<open>func\<close>: notices and sleeps.\<close>

datatype 'e efeito =
    Aviso int 'e rat
  | Dormir rat

text \<open>
  How a call of the wrapper ends: with the value of \<open>func\<close>; with \<open>None\<close> when the loop
  runs out without a \<open>return\<close>; with the caught failure of the last attempt re-raised
  as it is; with a \<open>BaseException\<close> of \<open>func\<close> passing through; or with an exception
  raised inside the handler by the notice or the sleep.
\<close>

datatype ('a, 'e) desfecho =
    Devolve 'a
  | DevolveNone
  | Propaga 'e
  | Atravessa 'e
  | LevantaNoHandler 'e

text \<open>
  The \<open>for\<close> loop: \<open>k\<close> counts the iterations that \<open>range(tentativas)\<close> still holds,
  \<open>i\<close> is the loop variable.
\<close>

fun laco_retry ::
  "'e ambiente \<Rightarrow> int \<Rightarrow> rat \<Rightarrow> ('s, 'a, 'e) operacao \<Rightarrow> nat \<Rightarrow> int \<Rightarrow> 's \<Rightarrow> 'e efeito list
    \<Rightarrow> ('a, 'e) desfecho \<times> 's \<times> 'e efeito list" where
  "laco_retry amb tentativas espera func 0 i s reg = (DevolveNone, s, reg)"
| "laco_retry amb tentativas espera func (Suc k) i s reg =
     (case func s of
        (Retorno v, s') \<Rightarrow> (Devolve v, s', reg)
      | (Interrupcao e, s') \<Rightarrow> (Atravessa e, s', reg)
      | (Excecao e, s') \<Rightarrow>
          if i = tentativas - 1 then (Propaga e, s', reg)
          else (case console_print amb (i + 1) e espera of
                  Some x \<Rightarrow> (LevantaNoHandler x, s', reg)
                | None \<Rightarrow>
                    (case time_sleep amb (i + 1) espera of
                       Some x \<Rightarrow> (LevantaNoHandler x, s', reg @ [Aviso (i + 1) e espera])
                     | None \<Rightarrow>
                         laco_retry amb tentativas espera func k (i + 1) s'
                           (reg @ [Aviso (i + 1) e espera, Dormir espera]))))"

definition com_retry ::
  "'e ambiente \<Rightarrow> int \<Rightarrow> rat \<Rightarrow> ('s, 'a, 'e) operacao \<Rightarrow> 's
    \<Rightarrow> ('a, 'e) desfecho \<times> 's \<times> 'e efeito list" where
  "com_retry amb tentativas espera func s =
     laco_retry amb tentativas espera func (nat tentativas) 0 s []"

text \<open>
  An operation that raises \<open>k\<close> times in a row from state \<open>s\<close>: the exceptions it raised,
  in order, and the state it left.
\<close>

fun falha_vezes :: "('s, 'a, 'e) operacao \<Rightarrow> nat \<Rightarrow> 's \<Rightarrow> ('e list \<times> 's) option" where
  "falha_vezes func 0 s = Some ([], s)"
| "falha_vezes func (Suc k) s =
     (case func s of
        (Excecao e, s') \<Rightarrow>
          (case falha_vezes func k s' of
             None \<Rightarrow> None
           | Some (es, t) \<Rightarrow> Some (e # es, t))
      | _ \<Rightarrow> None)"

text \<open>The notices and sleeps of the failures \<open>es\<close>, the first one at loop index \<open>i\<close>.\<close>

fun avisos :: "rat \<Rightarrow> int \<Rightarrow> 'e list \<Rightarrow> 'e efeito list" where
  "avisos espera i [] = []"
| "avisos espera i (e # es) = Aviso (i + 1) e espera # Dormir espera # avisos espera (i + 1) es"

text \<open>
  The handler goes through for the failures \<open>es\<close>, the first one at loop index \<open>i\<close>:
  every notice is printed and every sleep returns.
\<close>

fun handler_ok :: "'e ambiente \<Rightarrow> rat \<Rightarrow> int \<Rightarrow> 'e list \<Rightarrow> bool" where
  "handler_ok amb espera i [] = True"
| "handler_ok amb espera i (e # es) =
     (console_print amb (i + 1) e espera = None \<and> time_sleep amb (i + 1) espera = None
      \<and> handler_ok amb espera (i + 1) es)"

definition eh_aviso :: "'e efeito \<Rightarrow> bool" where
  "eh_aviso x = (case x of Aviso _ _ _ \<Rightarrow> True | Dormir _ \<Rightarrow> False)"

definition n_avisos :: "'e efeito list \<Rightarrow> nat" where
  "n_avisos reg = length (filter eh_aviso reg)"

text \<open>
  A scripted operation for concrete runs: the state is the list of outcomes still to
  come; a call takes the first one, and an exhausted script answers \<open>fim\<close>.
\<close>

fun roteiro :: "('a, 'e) resultado \<Rightarrow> (('a, 'e) resultado list, 'a, 'e) operacao" where
  "roteiro fim [] = (fim, [])"
| "roteiro fim (r # rs) = (r, rs)"

text \<open>The same operation with a counter of its invocations beside its state.\<close>

definition contada :: "('s, 'a, 'e) operacao \<Rightarrow> ('s \<times> nat, 'a, 'e) operacao" where
  "contada func = (\<lambda>(s, n). case func s of (r, s') \<Rightarrow> (r, (s', Suc n)))"

text \<open>
  An environment for concrete runs, with exceptions named by strings: the console
  refuses an error text that holds the closing tag \<open>[/x]\<close>, and the sleep refuses a
  negative delay.
\<close>

fun contem :: "'a list \<Rightarrow> 'a list \<Rightarrow> bool" where
  "contem pat [] = (pat = [])"
| "contem pat (c # cs) = (prefix pat (c # cs) \<or> contem pat cs)"

definition ambiente_exemplo :: "string ambiente" where
  "ambiente_exemplo = \<lparr>
     console_print = (\<lambda>n e espera. if contem ''[/x]'' e then Some ''MarkupError'' else None),
     time_sleep = (\<lambda>n espera. if espera < 0 then Some ''ValueError'' else None) \<rparr>"

section \<open>Python strings\<close>

text \<open>
  A Python \<open>str\<close> is a sequence of Unicode code points; \<open>len\<close>, slicing, \<open>strip\<close> and the
  \<open>re\<close> module all work on code points. Strings are therefore lists of code points
  (\<open>nat\<close>), and \<open>ascii\<close> turns an ASCII literal into one.
\<close>

type_synonym pystr = "nat list"

definition ascii :: "string \<Rightarrow> pystr" where
  "ascii s = map of_char s"

text \<open>
  The character classes the program relies on come from the Unicode database of the
  interpreter: \<open>str.isspace\<close> (used by \<open>strip\<close> and by \<open>\s\<close>), \<open>str.isdecimal\<close> (used by
  \<open>\d\<close> and by \<open>int\<close>), \<open>str.isalnum\<close> (used by \<open>\w\<close>), and the upper-case mapping of
  \<open>str.upper\<close>. In the database every decimal digit is alphanumeric and no white-space
  character is, so a code point has one of four classes. The ASCII range is written out
  below; the database above ASCII is a parameter \<open>U\<close> of every function that needs it.
\<close>

datatype classe = Decimal nat | Alfanumerico | Espaco | Outra

record unicode =
  classe_de :: "nat \<Rightarrow> classe"
  maiuscula_de :: "nat \<Rightarrow> pystr"

definition classe_ascii :: "nat \<Rightarrow> classe" where
  "classe_ascii c =
     (if 48 \<le> c \<and> c \<le> 57 then Decimal (c - 48)
      else if (65 \<le> c \<and> c \<le> 90) \<or> (97 \<le> c \<and> c \<le> 122) then Alfanumerico
      else if (9 \<le> c \<and> c \<le> 13) \<or> (28 \<le> c \<and> c \<le> 32) then Espaco
      else Outra)"

definition classe :: "unicode \<Rightarrow> nat \<Rightarrow> classe" where
  "classe U c = (if c < 128 then classe_ascii c else classe_de U c)"

definition isspace :: "unicode \<Rightarrow> nat \<Rightarrow> bool" where
  "isspace U c = (case classe U c of Espaco \<Rightarrow> True | _ \<Rightarrow> False)"

definition isdecimal :: "unicode \<Rightarrow> nat \<Rightarrow> bool" where
  "isdecimal U c = (case classe U c of Decimal d \<Rightarrow> True | _ \<Rightarrow> False)"

definition isalnum :: "unicode \<Rightarrow> nat \<Rightarrow> bool" where
  "isalnum U c = (case classe U c of Decimal d \<Rightarrow> True | Alfanumerico \<Rightarrow> True | _ \<Rightarrow> False)"

text \<open>\<open>\w\<close> of the \<open>re\<close> module on \<open>str\<close> patterns: alphanumeric or the underscore.\<close>

definition eh_palavra :: "unicode \<Rightarrow> nat \<Rightarrow> bool" where
  "eh_palavra U c = (isalnum U c \<or> c = 95)"

text \<open>
  A database for concrete runs. It agrees with Unicode on U+0080..U+00FF (the Latin-1
  supplement) and leaves every code point above unclassified and unchanged by \<open>upper\<close>,
  so it is only used on Latin-1 inputs.
\<close>

definition latin1 :: unicode where
  "latin1 = \<lparr>
     classe_de = (\<lambda>c.
       if c = 133 \<or> c = 160 then Espaco
       else if c = 170 \<or> c = 178 \<or> c = 179 \<or> c = 181 \<or> c = 185 \<or> c = 186
            \<or> (188 \<le> c \<and> c \<le> 190) \<or> (192 \<le> c \<and> c \<le> 214)
            \<or> (216 \<le> c \<and> c \<le> 246) \<or> (248 \<le> c \<and> c \<le> 255)
         then Alfanumerico
       else Outra),
     maiuscula_de = (\<lambda>c.
       if c = 181 then [924]
       else if c = 223 then [83, 83]
       else if c = 255 then [376]
       else if 224 \<le> c \<and> c \<le> 254 \<and> c \<noteq> 247 then [c - 32]
       else [c]) \<rparr>"

text \<open>\<open>s.strip()\<close>: white space removed from both ends.\<close>

definition strip :: "unicode \<Rightarrow> pystr \<Rightarrow> pystr" where
  "strip U s = rev (dropWhile (isspace U) (rev (dropWhile (isspace U) s)))"

text \<open>\<open>s.replace(old, new)\<close> for one-character \<open>old\<close> and \<open>new\<close>.\<close>

definition replace_char :: "nat \<Rightarrow> nat \<Rightarrow> pystr \<Rightarrow> pystr" where
  "replace_char old new s = map (\<lambda>c. if c = old then new else c) s"

section \<open>Folder names: \<open>sanitizar_nome\<close>\<close>

text \<open>
  \<^verbatim>\<open>return re.sub(r"[^\w\s-]", "", nome).strip().replace(" ", "_")[:50]\<close>

  The pattern is one negated character set, so the substitution by the empty string
  deletes exactly the code points that are neither \<open>\w\<close>, nor \<open>\s\<close>, nor the hyphen.
\<close>

definition fora_do_conjunto :: "unicode \<Rightarrow> nat \<Rightarrow> bool" where
  "fora_do_conjunto U c = (\<not> (eh_palavra U c \<or> isspace U c \<or> c = 45))"

definition re_sub_fora :: "unicode \<Rightarrow> pystr \<Rightarrow> pystr" where
  "re_sub_fora U nome = filter (\<lambda>c. \<not> fora_do_conjunto U c) nome"

definition sanitizar_nome :: "unicode \<Rightarrow> pystr \<Rightarrow> pystr" where
  "sanitizar_nome U nome = take 50 (replace_char 32 95 (strip U (re_sub_fora U nome)))"

text \<open>\<open>s.rstrip()\<close>: white space removed from the end only.\<close>

definition rstrip :: "unicode \<Rightarrow> pystr \<Rightarrow> pystr" where
  "rstrip U s = rev (dropWhile (isspace U) (rev s))"

definition termina_em_espaco :: "unicode \<Rightarrow> pystr \<Rightarrow> bool" where
  "termina_em_espaco U s = (case rev s of [] \<Rightarrow> False | c # _ \<Rightarrow> isspace U c)"

section \<open>Values and exceptions\<close>

text \<open>
  The values that reach the functions below are strings or \<open>None\<close>; the exceptions are
  the ones the modelled calls can raise.
\<close>

datatype valor = Str pystr | PyNone

datatype erro = ValueError | TypeError | IndexError

section \<open>Integer conversion: \<open>int(score_str)\<close>\<close>

text \<open>
  \<open>int\<close> of a \<open>str\<close>, base 10, as CPython does it. Every code point from 127 on is first
  replaced: white space by a blank, a decimal digit by its ASCII digit, anything else by
  \<open>?\<close>. The resulting bytes are then read: leading white space (\<open>Py_ISSPACE\<close>: 9 to 13
  and 32, which leaves out the separators 28 to 31 that \<open>strip\<close> accepts), one optional
  sign, digits with single underscores between them, trailing white space, end.
  Anything else is a \<open>ValueError\<close>, and so is a literal of more than \<open>maxd\<close> digits when
  the interpreter's limit \<open>sys.int_max_str_digits\<close> is on (\<open>maxd > 0\<close>, by default 4300;
  it only applies above 640 digits). \<open>int(None)\<close> is a \<open>TypeError\<close>.
\<close>

definition para_ascii :: "unicode \<Rightarrow> nat \<Rightarrow> nat" where
  "para_ascii U c =
     (if c < 127 then c
      else case classe U c of Espaco \<Rightarrow> 32 | Decimal d \<Rightarrow> 48 + d | _ \<Rightarrow> 63)"

definition py_isspace :: "nat \<Rightarrow> bool" where
  "py_isspace c = ((9 \<le> c \<and> c \<le> 13) \<or> c = 32)"

definition digito_ascii :: "nat \<Rightarrow> bool" where
  "digito_ascii c = (48 \<le> c \<and> c \<le> 57)"

text \<open>
  The scan over digits and underscores keeps the previous character: no underscore
  first, no two in a row, none last, and at least one character.
\<close>

fun resto_ok :: "nat \<Rightarrow> nat list \<Rightarrow> bool" where
  "resto_ok prev [] = (prev \<noteq> 95)"
| "resto_ok prev (c # cs) = (\<not> (prev = 95 \<and> c = 95) \<and> resto_ok c cs)"

fun sublinhados_ok :: "nat list \<Rightarrow> bool" where
  "sublinhados_ok [] = False"
| "sublinhados_ok (c # cs) = (c \<noteq> 95 \<and> resto_ok c cs)"

definition valor_decimal :: "nat list \<Rightarrow> int" where
  "valor_decimal ds = foldl (\<lambda>a c. 10 * a + int (c - 48)) 0 ds"

definition int_de_str :: "unicode \<Rightarrow> nat \<Rightarrow> pystr \<Rightarrow> erro + int" where
  "int_de_str U maxd s =
     (let b1 = dropWhile py_isspace (map (para_ascii U) s);
          negativo = (case b1 of [] \<Rightarrow> False | c # _ \<Rightarrow> c = 45);
          b2 = (case b1 of [] \<Rightarrow> [] | c # r \<Rightarrow> if c = 43 \<or> c = 45 then r else b1);
          corpo = takeWhile (\<lambda>c. digito_ascii c \<or> c = 95) b2;
          resto = dropWhile (\<lambda>c. digito_ascii c \<or> c = 95) b2;
          ds = filter digito_ascii corpo
      in if \<not> sublinhados_ok corpo \<or> dropWhile py_isspace resto \<noteq> [] then Inl ValueError
         else if 640 < length ds \<and> 0 < maxd \<and> maxd < length ds then Inl ValueError
         else Inr (if negativo then - valor_decimal ds else valor_decimal ds))"

definition py_int :: "unicode \<Rightarrow> nat \<Rightarrow> valor \<Rightarrow> erro + int" where
  "py_int U maxd v = (case v of PyNone \<Rightarrow> Inl TypeError | Str s \<Rightarrow> int_de_str U maxd s)"

section \<open>Score classification: \<open>classificar_score\<close>\<close>

text \<open>
  \<^verbatim>\<open>
  try:
      score = int(score_str)
      if score <= 20:   return "green", "ALTAMENTE CONFIAVEL"
      elif score <= 40: return "yellow", "MAIORITARIAMENTE VERDADEIRO"
      elif score <= 60: return "orange3", "SUSPEITO / VERIFICAR"
      elif score <= 80: return "red", "PROVAVEL DESINFORMACAO"
      else:             return "bold red", "DESINFORMACAO CONFIRMADA"
  except (ValueError, TypeError):
      return "white", "INDETERMINADO"
  \<close>
  The labels carry their accents in the source (U+00C1, U+00C7, U+00C3); the five
  bands are listed in the order of the branches.
\<close>

definition faixas :: "(pystr \<times> pystr) list" where
  "faixas =
     [(ascii ''green'', ascii ''ALTAMENTE CONFI'' @ [193] @ ascii ''VEL''),
      (ascii ''yellow'', ascii ''MAIORITARIAMENTE VERDADEIRO''),
      (ascii ''orange3'', ascii ''SUSPEITO / VERIFICAR''),
      (ascii ''red'', ascii ''PROV'' @ [193] @ ascii ''VEL DESINFORMA'' @ [199, 195] @ ascii ''O''),
      (ascii ''bold red'', ascii ''DESINFORMA'' @ [199, 195] @ ascii ''O CONFIRMADA'')]"

definition indeterminado :: "pystr \<times> pystr" where
  "indeterminado = (ascii ''white'', ascii ''INDETERMINADO'')"

definition classificar_score :: "unicode \<Rightarrow> nat \<Rightarrow> valor \<Rightarrow> erro + (pystr \<times> pystr)" where
  "classificar_score U maxd score_str =
     (case py_int U maxd score_str of
        Inr score \<Rightarrow>
          if score \<le> 20 then Inr (faixas ! 0)
          else if score \<le> 40 then Inr (faixas ! 1)
          else if score \<le> 60 then Inr (faixas ! 2)
          else if score \<le> 80 then Inr (faixas ! 3)
          else Inr (faixas ! 4)
      | Inl ValueError \<Rightarrow> Inr indeterminado
      | Inl TypeError \<Rightarrow> Inr indeterminado
      | Inl e \<Rightarrow> Inl e)"

section \<open>Verdict badge: \<open>determinar_badge_class\<close>\<close>

text \<open>
  \<open>s.upper()\<close> maps every code point to its upper-case form, which may be several
  code points (\<open>U+00DF\<close> gives \<open>SS\<close>) and may be ASCII for a code point that is not
  (\<open>U+017F\<close> gives \<open>S\<close>). ASCII letters are written out; the rest comes from the
  database.
\<close>

definition maiuscula :: "unicode \<Rightarrow> nat \<Rightarrow> pystr" where
  "maiuscula U c =
     (if c < 128 then [if 97 \<le> c \<and> c \<le> 122 then c - 32 else c] else maiuscula_de U c)"

definition upper :: "unicode \<Rightarrow> pystr \<Rightarrow> pystr" where
  "upper U s = concat (map (maiuscula U) s)"

text \<open>\<open>d.get(k, padrao)\<close> on a dictionary written as its list of items.\<close>

definition dict_get :: "('k \<times> 'v) list \<Rightarrow> 'k \<Rightarrow> 'v \<Rightarrow> 'v" where
  "dict_get d k padrao = (case map_of d k of None \<Rightarrow> padrao | Some v \<Rightarrow> v)"

text \<open>
  \<^verbatim>\<open>
  mapping = {
      "VERDADEIRO": "badge-verdadeiro",
      "FALSO": "badge-falso",
      "PARCIAL": "badge-parcial",
      "CONTEXTO": "badge-contexto",
      "INCONCLUSIVO": "badge-inconclusivo",
      "DESATUALIZADO": "badge-inconclusivo",
  }
  return mapping.get(veredito.upper(), "badge-inconclusivo")
  \<close>
\<close>

definition mapping_badge :: "(pystr \<times> pystr) list" where
  "mapping_badge =
     [(ascii ''VERDADEIRO'', ascii ''badge-verdadeiro''),
      (ascii ''FALSO'', ascii ''badge-falso''),
      (ascii ''PARCIAL'', ascii ''badge-parcial''),
      (ascii ''CONTEXTO'', ascii ''badge-contexto''),
      (ascii ''INCONCLUSIVO'', ascii ''badge-inconclusivo''),
      (ascii ''DESATUALIZADO'', ascii ''badge-inconclusivo'')]"

definition determinar_badge_class :: "unicode \<Rightarrow> pystr \<Rightarrow> pystr" where
  "determinar_badge_class U veredito =
     dict_get mapping_badge (upper U veredito) (ascii ''badge-inconclusivo'')"

section \<open>Regular expressions of the \<open>re\<close> module\<close>

text \<open>
  The four patterns of \<open>extrair_metricas\<close> use literals, the classes \<open>\s\<close>, \<open>\d\<close> and
  \<open>\w\<close> (Unicode-aware on \<open>str\<close>), the greedy repetitions \<open>*\<close> and \<open>+\<close> of a single
  character or class, the greedy option \<open>?\<close>, concatenation and capturing groups (a
  non-capturing group is just concatenation).
\<close>

datatype atomo = Lit nat | Digito | Palavra | Branco

datatype regex =
    Vazio
  | Atomo atomo
  | Estrela atomo
  | Mais atomo
  | Opc regex
  | Conc regex regex
  | Grupo nat regex

fun casa_atomo :: "unicode \<Rightarrow> atomo \<Rightarrow> nat \<Rightarrow> bool" where
  "casa_atomo U (Lit a) c = (c = a)"
| "casa_atomo U Digito c = isdecimal U c"
| "casa_atomo U Palavra c = eh_palavra U c"
| "casa_atomo U Branco c = isspace U c"

text \<open>
  A backtracking matcher explores the ways a pattern can match at a position in a
  fixed order and takes the first that lets the rest of the pattern match. \<open>casa\<close>
  lists those ways in that order: each is the text left after the match, with the
  groups captured so far (latest first). A greedy repetition offers its longest run
  first and gives characters back one at a time; a greedy option offers the match
  before the skip.
\<close>

type_synonym grupos = "(nat \<times> pystr) list"

fun casa :: "unicode \<Rightarrow> regex \<Rightarrow> pystr \<times> grupos \<Rightarrow> (pystr \<times> grupos) list" where
  "casa U Vazio st = [st]"
| "casa U (Atomo a) (xs, g) =
     (case xs of [] \<Rightarrow> [] | c # cs \<Rightarrow> if casa_atomo U a c then [(cs, g)] else [])"
| "casa U (Estrela a) (xs, g) =
     map (\<lambda>k. (drop k xs, g)) (rev [0..<Suc (length (takeWhile (casa_atomo U a) xs))])"
| "casa U (Mais a) (xs, g) =
     map (\<lambda>k. (drop k xs, g)) (rev [1..<Suc (length (takeWhile (casa_atomo U a) xs))])"
| "casa U (Opc r) st = casa U r st @ [st]"
| "casa U (Conc r1 r2) st = concat (map (casa U r2) (casa U r1 st))"
| "casa U (Grupo n r) (xs, g) =
     map (\<lambda>(ys, g'). (ys, (n, take (length xs - length ys) xs) # g')) (casa U r (xs, g))"

fun lit :: "pystr \<Rightarrow> regex" where
  "lit [] = Vazio"
| "lit (c # cs) = Conc (Atomo (Lit c)) (lit cs)"

text \<open>
  \<open>re.search(pattern, text)\<close>: the first match at the leftmost position that has one
  (the end of the text is a position too); \<open>None\<close> when there is none. The match
  object is represented by its captured groups.
\<close>

fun re_search :: "unicode \<Rightarrow> regex \<Rightarrow> pystr \<Rightarrow> grupos option" where
  "re_search U r [] = (case casa U r ([], []) of [] \<Rightarrow> None | (ys, g) # _ \<Rightarrow> Some g)"
| "re_search U r (c # cs) =
     (case casa U r (c # cs, []) of [] \<Rightarrow> re_search U r cs | (ys, g) # _ \<Rightarrow> Some g)"

fun n_grupos :: "regex \<Rightarrow> nat" where
  "n_grupos (Grupo n r) = Suc (n_grupos r)"
| "n_grupos (Conc r1 r2) = n_grupos r1 + n_grupos r2"
| "n_grupos (Opc r) = n_grupos r"
| "n_grupos _ = 0"

text \<open>
  \<open>m.group(n)\<close> for \<open>n \<ge> 1\<close>: \<open>IndexError\<close> when the pattern has no group \<open>n\<close>, \<open>None\<close>
  when the group took no part in the match, else the text it captured.
\<close>

definition group :: "regex \<Rightarrow> grupos \<Rightarrow> nat \<Rightarrow> erro + valor" where
  "group r g n =
     (if n_grupos r < n then Inl IndexError
      else Inr (case map_of g n of None \<Rightarrow> PyNone | Some s \<Rightarrow> Str s))"

section \<open>Metric extraction: \<open>extrair_metricas\<close>\<close>

text \<open>
  \<^verbatim>\<open>
  score_match    = re.search(r"SCORE_DESINFORMACAO:\s*(\d+)", laudo)
  confianca_match = re.search(r"CONFIANCA_ANALISE:\s*(\w+)", laudo)
  veredito_match = re.search(r"VEREDITO_CODIGO:\s*(\w+)", laudo)
  conspir_match  = re.search(r"MEDIA CONSPIR\s*\|\s*\*?\*?(\d+(?:\.\d+)?)/10", laudo)
  \<close>
  (the \<open>E\<close> of the last label is U+00C9 in the source).
\<close>

definition padrao_score :: regex where
  "padrao_score =
     Conc (lit (ascii ''SCORE_DESINFORMACAO:'')) (Conc (Estrela Branco) (Grupo 1 (Mais Digito)))"

definition padrao_confianca :: regex where
  "padrao_confianca =
     Conc (lit (ascii ''CONFIANCA_ANALISE:'')) (Conc (Estrela Branco) (Grupo 1 (Mais Palavra)))"

definition padrao_veredito :: regex where
  "padrao_veredito =
     Conc (lit (ascii ''VEREDITO_CODIGO:'')) (Conc (Estrela Branco) (Grupo 1 (Mais Palavra)))"

definition padrao_conspir :: regex where
  "padrao_conspir =
     Conc (lit (ascii ''M'' @ [201] @ ascii ''DIA CONSPIR''))
      (Conc (Estrela Branco)
      (Conc (Atomo (Lit 124))
      (Conc (Estrela Branco)
      (Conc (Opc (Atomo (Lit 42)))
      (Conc (Opc (Atomo (Lit 42)))
      (Conc (Grupo 1 (Conc (Mais Digito) (Opc (Conc (Atomo (Lit 46)) (Mais Digito)))))
            (lit (ascii ''/10''))))))))"

text \<open>The dictionary \<open>metricas\<close> has four fixed keys; \<open>N/A\<close> is the sentinel.\<close>

record metricas =
  score :: valor
  confianca :: valor
  veredito :: valor
  conspir_media :: valor

definition nao_disponivel :: pystr where
  "nao_disponivel = ascii ''N/A''"

text \<open>An f-string field \<open>{v}\<close>: the string itself, or \<open>None\<close> spelled out.\<close>

definition formata :: "valor \<Rightarrow> pystr" where
  "formata v = (case v of Str s \<Rightarrow> s | PyNone \<Rightarrow> ascii ''None'')"

definition entao :: "erro + 'a \<Rightarrow> ('a \<Rightarrow> erro + 'b) \<Rightarrow> erro + 'b" where
  "entao x f = (case x of Inl e \<Rightarrow> Inl e | Inr a \<Rightarrow> f a)"

text \<open>
  One \<open>x_match = re.search(...)\<close> with its \<open>if x_match: metricas[...] = ...\<close>: the
  dictionary is left as it is when the pattern is not found.
\<close>

definition passo ::
  "unicode \<Rightarrow> regex \<Rightarrow> pystr \<Rightarrow> (valor \<Rightarrow> metricas \<Rightarrow> metricas) \<Rightarrow> metricas \<Rightarrow> erro + metricas" where
  "passo U padrao laudo grava m =
     (case re_search U padrao laudo of
        None \<Rightarrow> Inr m
      | Some g \<Rightarrow> entao (group padrao g 1) (\<lambda>v. Inr (grava v m)))"

text \<open>\<open>re.search\<close> raises \<open>TypeError\<close> when the text is \<open>None\<close> instead of a string.\<close>

definition extrair_metricas :: "unicode \<Rightarrow> valor \<Rightarrow> erro + metricas" where
  "extrair_metricas U laudo =
     (case laudo of
        PyNone \<Rightarrow> Inl TypeError
      | Str texto \<Rightarrow>
          entao (passo U padrao_score texto (\<lambda>v m. m\<lparr>score := v\<rparr>)
                   \<lparr>score = Str nao_disponivel, confianca = Str nao_disponivel,
                    veredito = Str nao_disponivel, conspir_media = Str nao_disponivel\<rparr>)
           (\<lambda>m1. entao (passo U padrao_confianca texto (\<lambda>v m. m\<lparr>confianca := v\<rparr>) m1)
           (\<lambda>m2. entao (passo U padrao_veredito texto (\<lambda>v m. m\<lparr>veredito := v\<rparr>) m2)
           (\<lambda>m3. passo U padrao_conspir texto
                     (\<lambda>v m. m\<lparr>conspir_media := Str (formata v @ ascii ''/10'')\<rparr>) m3))))"

text \<open>Group \<open>n\<close> lies on every path through the pattern: no option or repetition around it.\<close>

fun captura :: "nat \<Rightarrow> regex \<Rightarrow> bool" where
  "captura n (Grupo k r) = (k = n \<or> captura n r)"
| "captura n (Conc r1 r2) = (captura n r1 \<or> captura n r2)"
| "captura n _ = False"

section \<open>Properties of the retry wrapper\<close>

lemma n_avisos_avisos: "n_avisos (avisos espera i es) = length es"
  by (induction es arbitrary: i) (simp_all add: n_avisos_def eh_aviso_def)

lemma falha_vezes_length: "falha_vezes func k s = Some (es, t) \<Longrightarrow> length es = k"
  by (induction k arbitrary: s es)
     (auto split: prod.splits resultado.splits option.splits)

text \<open>
  \<open>k\<close> caught failures, none of them at the last loop index and each with a handler
  that goes through, leave the loop \<open>k\<close> iterations further with their notices
  appended.
\<close>

lemma laco_retry_falhas:
  "falha_vezes func k s = Some (es, t) \<Longrightarrow> handler_ok amb espera i es \<Longrightarrow>
   i + int k \<le> tentativas - 1 \<Longrightarrow>
   laco_retry amb tentativas espera func (k + m) i s reg =
   laco_retry amb tentativas espera func m (i + int k) t (reg @ avisos espera i es)"
proof (induction k arbitrary: i s reg es)
  case 0
  then show ?case by simp
next
  case (Suc k)
  from Suc.prems(1) obtain e s' es' where
    f: "func s = (Excecao e, s')" and r: "falha_vezes func k s' = Some (es', t)" and es: "es = e # es'"
    by (auto split: prod.splits resultado.splits option.splits)
  from Suc.prems(2) have pr: "console_print amb (i + 1) e espera = None"
    and sl: "time_sleep amb (i + 1) espera = None" and h: "handler_ok amb espera (i + 1) es'"
    by (simp_all add: es)
  from Suc.prems(3) have ni: "i \<noteq> tentativas - 1" and le: "(i + 1) + int k \<le> tentativas - 1" by auto
  have step: "laco_retry amb tentativas espera func (Suc (k + m)) i s reg =
        laco_retry amb tentativas espera func (k + m) (i + 1) s' (reg @ [Aviso (i + 1) e espera, Dormir espera])"
    using f ni pr sl by simp
  have ih: "laco_retry amb tentativas espera func (k + m) (i + 1) s' (reg @ [Aviso (i + 1) e espera, Dormir espera])
        = laco_retry amb tentativas espera func m ((i + 1) + int k) t
        ((reg @ [Aviso (i + 1) e espera, Dormir espera]) @ avisos espera (i + 1) es')"
    by (rule Suc.IH [OF r h le])
  have idx: "(i + 1) + int k = i + int (Suc k)" by simp
  have lg: "(reg @ [Aviso (i + 1) e espera, Dormir espera]) @ avisos espera (i + 1) es' = reg @ avisos espera i es"
    by (simp add: es)
  show ?case by (simp only: add_Suc step ih idx lg)
qed

lemma com_retry_sucesso:
  assumes "falha_vezes func k s = Some (es, t)" "func t = (Retorno v, t')"
    "int k < tentativas" "handler_ok amb espera 0 es"
  shows "com_retry amb tentativas espera func s = (Devolve v, t', avisos espera 0 es)"
proof -
  have "k < nat tentativas" using assms(3) by linarith
  then obtain m where m: "nat tentativas = k + Suc m"
    by (auto dest: less_imp_Suc_add)
  have "laco_retry amb tentativas espera func (k + Suc m) 0 s [] =
        laco_retry amb tentativas espera func (Suc m) (0 + int k) t ([] @ avisos espera 0 es)"
    by (rule laco_retry_falhas [OF assms(1) assms(4)]) (use assms(3) in simp)
  then show ?thesis using assms(2) by (simp add: com_retry_def m)
qed

lemma falha_vezes_snoc:
  "falha_vezes func (Suc k) s = Some (es, t) \<Longrightarrow>
   \<exists>es' e u. falha_vezes func k s = Some (es', u) \<and> func u = (Excecao e, t) \<and> es = es' @ [e]"
proof (induction k arbitrary: s es)
  case 0
  then show ?case by (auto split: prod.splits resultado.splits option.splits)
next
  case (Suc k)
  from Suc.prems obtain e s' es1 where
    f: "func s = (Excecao e, s')" and r: "falha_vezes func (Suc k) s' = Some (es1, t)" and es: "es = e # es1"
    by (auto split: prod.splits resultado.splits option.splits)
  from Suc.IH [OF r] obtain es' e' u where
    "falha_vezes func k s' = Some (es', u)" "func u = (Excecao e', t)" "es1 = es' @ [e']" by blast
  then show ?case using f es by simp
qed

lemma com_retry_esgotado:
  assumes "falha_vezes func (nat tentativas) s = Some (es, t)" "1 \<le> tentativas"
    "handler_ok amb espera 0 (butlast es)"
  shows "com_retry amb tentativas espera func s =
         (Propaga (last es), t, avisos espera 0 (butlast es))"
proof -
  obtain m where m: "nat tentativas = Suc m" using assms(2) by (cases "nat tentativas") auto
  then have tm: "tentativas = int m + 1" by linarith
  from assms(1) obtain es' e u where
    p: "falha_vezes func m s = Some (es', u)" and f: "func u = (Excecao e, t)" and es: "es = es' @ [e]"
    unfolding m by (blast dest: falha_vezes_snoc)
  from assms(3) have h: "handler_ok amb espera 0 es'" by (simp add: es)
  have m': "nat tentativas = m + Suc 0" using m by simp
  have a: "laco_retry amb tentativas espera func (m + Suc 0) 0 s [] =
        laco_retry amb tentativas espera func (Suc 0) (0 + int m) u ([] @ avisos espera 0 es')"
    by (rule laco_retry_falhas [OF p h]) (simp add: tm)
  have b: "laco_retry amb tentativas espera func (Suc 0) (0 + int m) u ([] @ avisos espera 0 es') =
        (Propaga e, t, avisos espera 0 es')"
    using f by (simp add: tm)
  show ?thesis unfolding com_retry_def m' a b by (simp add: es)
qed

lemma contada_falha_vezes:
  "falha_vezes func k s = Some (es, t) \<Longrightarrow>
   falha_vezes (contada func) k (s, n) = Some (es, (t, n + k))"
  by (induction k arbitrary: s es n)
     (auto simp: contada_def split: prod.splits resultado.splits option.splits)

text \<open>
  When the handler itself raises, at the notice or at the sleep of a failure that is
  not the last attempt's, that exception leaves the wrapper and the operation is not
  tried again.
\<close>

lemma com_retry_handler_levanta:
  assumes "falha_vezes func k s = Some (es, t)" "func t = (Excecao e, t')"
    "int k < tentativas - 1" "handler_ok amb espera 0 es"
  shows "console_print amb (int k + 1) e espera = Some x \<Longrightarrow>
           com_retry amb tentativas espera func s = (LevantaNoHandler x, t', avisos espera 0 es)"
    and "console_print amb (int k + 1) e espera = None \<Longrightarrow>
         time_sleep amb (int k + 1) espera = Some x \<Longrightarrow>
           com_retry amb tentativas espera func s =
             (LevantaNoHandler x, t', avisos espera 0 es @ [Aviso (int k + 1) e espera])"
proof -
  have "k < nat tentativas" using assms(3) by linarith
  then obtain m where m: "nat tentativas = k + Suc m"
    by (auto dest: less_imp_Suc_add)
  have a: "laco_retry amb tentativas espera func (k + Suc m) 0 s [] =
        laco_retry amb tentativas espera func (Suc m) (0 + int k) t ([] @ avisos espera 0 es)"
    by (rule laco_retry_falhas [OF assms(1) assms(4)]) (use assms(3) in simp)
  have ni: "int k \<noteq> tentativas - 1" using assms(3) by simp
  show "console_print amb (int k + 1) e espera = Some x \<Longrightarrow>
           com_retry amb tentativas espera func s = (LevantaNoHandler x, t', avisos espera 0 es)"
    unfolding com_retry_def m a using assms(2) ni by simp
  show "console_print amb (int k + 1) e espera = None \<Longrightarrow>
         time_sleep amb (int k + 1) espera = Some x \<Longrightarrow>
           com_retry amb tentativas espera func s =
             (LevantaNoHandler x, t', avisos espera 0 es @ [Aviso (int k + 1) e espera])"
    unfolding com_retry_def m a using assms(2) ni by simp
qed

text \<open>
  An error text with the closing tag \<open>[/x]\<close> stops the wrapper at its first notice,
  and a negative delay at its first sleep, although the second attempt would succeed.
\<close>

lemma com_retry_handler_levanta_exemplo:
  "com_retry ambiente_exemplo 3 2 (roteiro (Retorno 0)) [Excecao ''[/x]'', Retorno (7::nat)]
     = (LevantaNoHandler ''MarkupError'', [Retorno 7], [])"
  "com_retry ambiente_exemplo 3 (- 1) (roteiro (Retorno 0)) [Excecao ''timeout'', Retorno (7::nat)]
     = (LevantaNoHandler ''ValueError'', [Retorno 7], [Aviso 1 ''timeout'' (- 1)])"
  by code_simp+

text \<open>
  C9. With \<open>tentativas = 0\<close> the loop body never runs: the wrapped call returns \<open>None\<close>,
  raises nothing, prints nothing, and does not invoke the operation (its state and its
  invocation counter are as they were), whatever the operation is.
\<close>

theorem com_retry_zero_tentativas:
  "com_retry amb 0 espera func s = (DevolveNone, s, []) \<and>
   com_retry amb 0 espera (contada func) (s, n) = (DevolveNone, (s, n), [])"
  by (simp add: com_retry_def)

text \<open>
  C1 (as the code has it). \<open>tentativas\<close> is the number of attempts, not of retries.
  For \<open>tentativas \<ge> 1\<close>: an operation that raises \<open>k < tentativas\<close> times (exceptions
  below \<open>Exception\<close>) and then returns makes the wrapper return that value, after
  exactly \<open>k\<close> notices numbered \<open>1..k\<close> and \<open>k + 1\<close> invocations, provided the handler
  goes through each time (the notice is printed and the sleep returns); an operation
  that raises \<open>tentativas\<close> times in a row makes the wrapper re-raise the failure of the
  last attempt, the same exception object, after \<open>tentativas - 1\<close> notices and exactly
  \<open>tentativas\<close> invocations, under the same proviso for the failures before the last.
  No default value stands in for it.
\<close>

theorem com_retry_tentativas:
  assumes "1 \<le> tentativas"
  shows "(int k < tentativas \<and> falha_vezes func k s = Some (es, t) \<and> func t = (Retorno v, t')
            \<and> handler_ok amb espera 0 es
            \<longrightarrow> com_retry amb tentativas espera func s = (Devolve v, t', avisos espera 0 es)
              \<and> n_avisos (avisos espera 0 es) = k
              \<and> snd (fst (snd (com_retry amb tentativas espera (contada func) (s, 0)))) = k + 1)
       \<and> (falha_vezes func (nat tentativas) s = Some (fs, u) \<and> handler_ok amb espera 0 (butlast fs)
            \<longrightarrow> com_retry amb tentativas espera func s =
                  (Propaga (last fs), u, avisos espera 0 (butlast fs))
              \<and> n_avisos (avisos espera 0 (butlast fs)) = nat tentativas - 1
              \<and> snd (fst (snd (com_retry amb tentativas espera (contada func) (s, 0)))) = nat tentativas)"
proof (intro conjI impI)
  assume a: "int k < tentativas \<and> falha_vezes func k s = Some (es, t) \<and> func t = (Retorno v, t')
            \<and> handler_ok amb espera 0 es"
  from a have a1: "falha_vezes func k s = Some (es, t)" and a2: "func t = (Retorno v, t')"
    and e: "int k < tentativas" and h: "handler_ok amb espera 0 es" by simp_all
  show "com_retry amb tentativas espera func s = (Devolve v, t', avisos espera 0 es)"
    by (rule com_retry_sucesso [OF a1 a2 e h])
  show "n_avisos (avisos espera 0 es) = k"
    using falha_vezes_length [OF a1] by (simp add: n_avisos_avisos)
  have c: "falha_vezes (contada func) k (s, 0) = Some (es, (t, 0 + k))"
    by (rule contada_falha_vezes [OF a1])
  have d: "contada func (t, 0 + k) = (Retorno v, (t', Suc (0 + k)))"
    using a2 by (simp add: contada_def)
  show "snd (fst (snd (com_retry amb tentativas espera (contada func) (s, 0)))) = k + 1"
    unfolding com_retry_sucesso [OF c d e h] by simp
next
  assume b0: "falha_vezes func (nat tentativas) s = Some (fs, u) \<and> handler_ok amb espera 0 (butlast fs)"
  then have b: "falha_vezes func (nat tentativas) s = Some (fs, u)"
    and h: "handler_ok amb espera 0 (butlast fs)" by simp_all
  show "com_retry amb tentativas espera func s =
                  (Propaga (last fs), u, avisos espera 0 (butlast fs))"
    by (rule com_retry_esgotado [OF b assms h])
  from b have "length fs = nat tentativas" by (rule falha_vezes_length)
  then show "n_avisos (avisos espera 0 (butlast fs)) = nat tentativas - 1"
    by (simp add: n_avisos_avisos)
  from b have c: "falha_vezes (contada func) (nat tentativas) (s, 0) = Some (fs, (u, 0 + nat tentativas))"
    by (rule contada_falha_vezes)
  show "snd (fst (snd (com_retry amb tentativas espera (contada func) (s, 0)))) = nat tentativas"
    unfolding com_retry_esgotado [OF c assms h] by simp
qed

text \<open>
  Three attempts: two failures and a success give the value after two notices; three
  failures give the third failure after two notices, and the fourth outcome of the
  script is never asked for.
\<close>

theorem com_retry_tentativas_witness:
  "com_retry ambiente_exemplo 3 2 (roteiro (Retorno 0)) [Excecao ''a'', Excecao ''b'', Retorno (7::nat)] =
     (Devolve 7, [], [Aviso 1 ''a'' 2, Dormir 2, Aviso 2 ''b'' 2, Dormir 2])
   \<and> n_avisos [Aviso 1 ''a'' 2, Dormir 2, Aviso 2 ''b'' 2, Dormir 2] = 2
   \<and> com_retry ambiente_exemplo 3 2 (roteiro (Retorno 0)) [Excecao ''a'', Excecao ''b'', Excecao ''c'', Retorno (7::nat)] =
     (Propaga ''c'', [Retorno 7], [Aviso 1 ''a'' 2, Dormir 2, Aviso 2 ''b'' 2, Dormir 2])"
proof -
  have h: "handler_ok ambiente_exemplo 2 0 [''a'', ''b'']"
    by (simp add: ambiente_exemplo_def)
  show ?thesis
    using h com_retry_tentativas [where tentativas = 3 and espera = 2 and amb = ambiente_exemplo
      and func = "roteiro (Retorno (0::nat))"
      and k = 2 and s = "[Excecao ''a'', Excecao ''b'', Retorno 7]" and es = "[''a'', ''b'']"
      and t = "[Retorno 7]" and v = 7 and t' = "[]"]
    com_retry_tentativas [where tentativas = 3 and espera = 2 and amb = ambiente_exemplo
      and func = "roteiro (Retorno (0::nat))"
      and s = "[Excecao ''a'', Excecao ''b'', Excecao ''c'', Retorno 7]" and fs = "[''a'', ''b'', ''c'']"
      and u = "[Retorno 7]"]
    by (simp add: eval_nat_numeral n_avisos_def eh_aviso_def)
qed

text \<open>
  The claim as worded, at \<open>N = 1\<close>: one attempt, an operation that fails exactly once and
  would then succeed. The wrapper re-raises the failure and prints no notice; it does
  not return the success value after one notice.
\<close>

theorem com_retry_claim_counterexample:
  "falha_vezes (roteiro (Retorno 0)) 1 [Excecao ''e1'', Retorno (7::nat)] = Some ([''e1''], [Retorno 7])
   \<and> roteiro (Retorno 0) [Retorno (7::nat) :: (nat, string) resultado] = (Retorno 7, [])
   \<and> com_retry ambiente_exemplo 1 2 (roteiro (Retorno 0)) [Excecao ''e1'', Retorno (7::nat)] =
       (Propaga ''e1'', [Retorno 7], [])
   \<and> fst (com_retry ambiente_exemplo 1 2 (roteiro (Retorno 0)) [Excecao ''e1'', Retorno (7::nat)]) \<noteq> Devolve 7
   \<and> n_avisos (snd (snd (com_retry ambiente_exemplo 1 2 (roteiro (Retorno 0)) [Excecao ''e1'', Retorno (7::nat)]))) \<noteq> 1"
  by (simp add: com_retry_def n_avisos_def)

section \<open>Properties of \<open>sanitizar_nome\<close>\<close>

lemma isspace_32: "isspace U 32"
  by (simp add: isspace_def classe_def classe_ascii_def)

lemma nao_isspace_95: "\<not> isspace U 95"
  by (simp add: isspace_def classe_def classe_ascii_def)

lemma eh_palavra_95: "eh_palavra U 95"
  by (simp add: eh_palavra_def)

lemma rstrip_Cons: "\<not> isspace U a \<Longrightarrow> rstrip U (a # ys) = a # rstrip U ys"
proof (cases "\<forall>x\<in>set (rev ys). isspace U x")
  case True
  assume na: "\<not> isspace U a"
  from True have 1: "dropWhile (isspace U) (rev ys @ [a]) = dropWhile (isspace U) [a]"
    by (intro dropWhile_append2) simp
  from True have 2: "dropWhile (isspace U) (rev ys) = []" by simp
  show ?thesis using na by (simp add: rstrip_def 1 2)
next
  case False
  then obtain x where "x \<in> set (rev ys)" "\<not> isspace U x" by blast
  then show ?thesis by (simp add: rstrip_def dropWhile_append1)
qed

lemma strip_rstrip: "strip U s = rstrip U (dropWhile (isspace U) s)"
  by (simp add: strip_def rstrip_def)

lemma strip_sem_espaco_inicial:
  "s = [] \<or> \<not> isspace U (hd s) \<Longrightarrow> strip U s = rstrip U s"
  by (cases s) (auto simp: strip_rstrip)

lemma strip_hd: "strip U s \<noteq> [] \<Longrightarrow> \<not> isspace U (hd (strip U s))"
proof -
  assume a: "strip U s \<noteq> []"
  let ?y = "dropWhile (isspace U) s"
  from a have ne: "?y \<noteq> []" by (auto simp: strip_rstrip rstrip_def dest: set_dropWhileD)
  then have h: "\<not> isspace U (hd ?y)" by (rule hd_dropWhile)
  from ne obtain b bs where y: "?y = b # bs" by (cases ?y) auto
  with h have "strip U s = b # rstrip U bs" by (simp add: strip_rstrip rstrip_Cons)
  with h y show ?thesis by simp
qed

lemma set_rstrip: "x \<in> set (rstrip U s) \<Longrightarrow> x \<in> set s"
  by (auto simp: rstrip_def dest: set_dropWhileD)

lemma set_strip: "x \<in> set (strip U s) \<Longrightarrow> x \<in> set s"
  by (auto simp: strip_rstrip dest: set_rstrip set_dropWhileD)

lemma sanitizar_nome_chars:
  "c \<in> set (sanitizar_nome U s) \<Longrightarrow> \<not> fora_do_conjunto U c \<and> c \<noteq> 32"
proof -
  assume "c \<in> set (sanitizar_nome U s)"
  then have "c \<in> set (replace_char 32 95 (strip U (re_sub_fora U s)))"
    unfolding sanitizar_nome_def by (rule in_set_takeD)
  then obtain d where d: "d \<in> set (strip U (re_sub_fora U s))" and c: "c = (if d = 32 then 95 else d)"
    by (auto simp: replace_char_def)
  from d have "d \<in> set (re_sub_fora U s)" by (rule set_strip)
  then have "\<not> fora_do_conjunto U d" by (simp add: re_sub_fora_def)
  with c show ?thesis by (auto simp: fora_do_conjunto_def eh_palavra_95)
qed

lemma sanitizar_nome_hd:
  "sanitizar_nome U s \<noteq> [] \<Longrightarrow> \<not> isspace U (hd (sanitizar_nome U s))"
proof -
  let ?t = "strip U (re_sub_fora U s)"
  assume a: "sanitizar_nome U s \<noteq> []"
  then have ne: "?t \<noteq> []" by (auto simp: sanitizar_nome_def replace_char_def)
  then have h: "\<not> isspace U (hd ?t)" by (rule strip_hd)
  from ne obtain b bs where t: "?t = b # bs" by (cases ?t) auto
  with h have "b \<noteq> 32" using isspace_32 by auto
  with t have "hd (sanitizar_nome U s) = b" by (simp add: sanitizar_nome_def replace_char_def)
  with h t show ?thesis by simp
qed

lemma sanitizar_nome_length: "length (sanitizar_nome U s) \<le> 50"
  by (simp add: sanitizar_nome_def)

lemma sanitizar_nome_duas_vezes:
  "sanitizar_nome U (sanitizar_nome U s) = rstrip U (sanitizar_nome U s)"
proof -
  let ?r = "sanitizar_nome U s"
  have f: "re_sub_fora U ?r = ?r"
    unfolding re_sub_fora_def using sanitizar_nome_chars by (intro filter_True) blast
  have st: "strip U ?r = rstrip U ?r"
    using sanitizar_nome_hd by (intro strip_sem_espaco_inicial) blast
  have "\<And>c. c \<in> set (rstrip U ?r) \<Longrightarrow> c \<noteq> 32"
    using set_rstrip sanitizar_nome_chars by blast
  then have rp: "replace_char 32 95 (rstrip U ?r) = rstrip U ?r"
    unfolding replace_char_def by (intro map_idI) auto
  have "length (rstrip U ?r) \<le> length ?r" by (simp add: rstrip_def length_dropWhile_le order_trans[OF length_dropWhile_le])
  then have tk: "take 50 (rstrip U ?r) = rstrip U ?r"
    using sanitizar_nome_length [of U s] by simp
  show ?thesis
    unfolding sanitizar_nome_def [of U ?r] f st rp tk ..
qed

lemma rstrip_id_iff: "(rstrip U s = s) = (\<not> termina_em_espaco U s)"
proof (cases "rev s")
  case Nil
  then show ?thesis by (simp add: rstrip_def termina_em_espaco_def)
next
  case (Cons c cs)
  show ?thesis
  proof (cases "isspace U c")
    case True
    have "length (rstrip U s) < length s"
      unfolding rstrip_def using Cons True
      by (simp add: less_Suc_eq_le length_dropWhile_le)
    then show ?thesis using Cons True by (auto simp: termina_em_espaco_def)
  next
    case False
    then show ?thesis using Cons by (simp add: rstrip_def termina_em_espaco_def)
  qed
qed

lemma rstrip_rstrip: "rstrip U (rstrip U s) = rstrip U s"
  by (simp add: rstrip_def dropWhile_idem)

text \<open>
  What a second pass does to a sanitized name: it strips white space from its end and
  changes nothing else. The bound of 50 code points holds for every input.
\<close>

lemma sanitizar_nome_segunda_passagem:
  "length (sanitizar_nome U s) \<le> 50
   \<and> sanitizar_nome U (sanitizar_nome U s) = rstrip U (sanitizar_nome U s)
   \<and> (sanitizar_nome U (sanitizar_nome U s) = sanitizar_nome U s)
       = (\<not> termina_em_espaco U (sanitizar_nome U s))
   \<and> sanitizar_nome U (sanitizar_nome U (sanitizar_nome U s))
       = sanitizar_nome U (sanitizar_nome U s)"
proof (intro conjI)
  show "length (sanitizar_nome U s) \<le> 50" by (rule sanitizar_nome_length)
  show d: "sanitizar_nome U (sanitizar_nome U s) = rstrip U (sanitizar_nome U s)"
    by (rule sanitizar_nome_duas_vezes)
  show "(sanitizar_nome U (sanitizar_nome U s) = sanitizar_nome U s)
       = (\<not> termina_em_espaco U (sanitizar_nome U s))"
    unfolding d by (rule rstrip_id_iff)
  show "sanitizar_nome U (sanitizar_nome U (sanitizar_nome U s))
       = sanitizar_nome U (sanitizar_nome U s)"
  proof -
    have "sanitizar_nome U (sanitizar_nome U (sanitizar_nome U s))
        = rstrip U (sanitizar_nome U (sanitizar_nome U s))"
      by (rule sanitizar_nome_duas_vezes)
    also have "\<dots> = rstrip U (rstrip U (sanitizar_nome U s))" by (simp only: d)
    also have "\<dots> = rstrip U (sanitizar_nome U s)" by (rule rstrip_rstrip)
    also have "\<dots> = sanitizar_nome U (sanitizar_nome U s)" by (rule d [symmetric])
    finally show ?thesis .
  qed
qed

text \<open>
  C4. The bound holds, the idempotence does not. For 49 letters \<open>a\<close>, a tab and a
  \<open>b\<close>, the tab survives \<open>strip\<close> (it is inside the text) and \<open>replace\<close> (which only
  handles U+0020); the cut at 50 then leaves it at the end of the name, and a second
  pass strips it. The name meant to be safe ends in a tab, and sanitizing it again
  gives a different name.
\<close>

theorem sanitizar_nome_nao_idempotente:
  "sanitizar_nome latin1 (replicate 49 97 @ [9, 98]) = replicate 49 97 @ [9]
   \<and> length (sanitizar_nome latin1 (replicate 49 97 @ [9, 98])) = 50
   \<and> termina_em_espaco latin1 (sanitizar_nome latin1 (replicate 49 97 @ [9, 98]))
   \<and> sanitizar_nome latin1 (sanitizar_nome latin1 (replicate 49 97 @ [9, 98])) = replicate 49 97
   \<and> sanitizar_nome latin1 (sanitizar_nome latin1 (replicate 49 97 @ [9, 98]))
       \<noteq> sanitizar_nome latin1 (replicate 49 97 @ [9, 98])"
  by code_simp

section \<open>Properties of \<open>classificar_score\<close>\<close>

lemma int_de_str_erros: "int_de_str U maxd s = Inl e \<Longrightarrow> e = ValueError"
  unfolding int_de_str_def Let_def by (simp split: if_splits)

lemma py_int_erros: "py_int U maxd v = Inl e \<Longrightarrow> e = ValueError \<or> e = TypeError"
  by (cases v) (auto simp: py_int_def dest: int_de_str_erros)

lemma classificar_score_total: "\<exists>r. classificar_score U maxd v = Inr r"
proof (cases "py_int U maxd v")
  case (Inl e)
  with py_int_erros have "e = ValueError \<or> e = TypeError" by blast
  with Inl show ?thesis by (auto simp: classificar_score_def)
next
  case (Inr n)
  then show ?thesis by (simp add: classificar_score_def)
qed

lemma classificar_score_erro:
  "py_int U maxd v = Inl e \<Longrightarrow> classificar_score U maxd v = Inr indeterminado"
  using py_int_erros [of U maxd v e] by (auto simp: classificar_score_def)

lemma resto_ok_digitos:
  "c \<noteq> 95 \<Longrightarrow> \<forall>x\<in>set cs. digito_ascii x \<Longrightarrow> resto_ok c cs"
  by (induction cs arbitrary: c) (auto simp: digito_ascii_def)

lemma sublinhados_ok_digitos:
  "ds \<noteq> [] \<Longrightarrow> \<forall>x\<in>set ds. digito_ascii x \<Longrightarrow> sublinhados_ok ds"
  by (cases ds) (auto simp: digito_ascii_def intro!: resto_ok_digitos)

lemma takeWhile_nenhum: "\<forall>x\<in>set xs. \<not> P x \<Longrightarrow> takeWhile P xs = []"
  by (cases xs) auto

lemma dropWhile_nenhum: "\<forall>x\<in>set xs. \<not> P x \<Longrightarrow> dropWhile P xs = xs"
  by (cases xs) auto

lemma dropWhile_todos: "\<forall>x\<in>set xs. P x \<Longrightarrow> dropWhile P xs = []"
  by simp

lemma int_de_str_corpo:
  assumes e1: "\<forall>c\<in>set e1. py_isspace c" and e2: "\<forall>c\<in>set e2. py_isspace c"
    and ne: "ds \<noteq> []" and ds: "\<forall>c\<in>set ds. digito_ascii c"
    and sinal: "sinal = [] \<or> sinal = [43] \<or> sinal = [45]"
    and lim: "maxd = 0 \<or> length ds \<le> maxd \<or> length ds \<le> 640"
  shows "int_de_str U maxd (e1 @ sinal @ ds @ e2) =
         Inr (if sinal = [45] then - valor_decimal ds else valor_decimal ds)"
proof -
  let ?P = "\<lambda>c. digito_ascii c \<or> c = 95"
  from ne obtain d ds' where dd: "ds = d # ds'" by (cases ds) auto
  with ds have d: "digito_ascii d" by simp
  have "\<forall>c\<in>set (e1 @ sinal @ ds @ e2). c < 127"
    using e1 e2 ds sinal by (auto simp: py_isspace_def digito_ascii_def)
  then have m: "map (para_ascii U) (e1 @ sinal @ ds @ e2) = e1 @ sinal @ ds @ e2"
    by (intro map_idI) (simp add: para_ascii_def)
  have hd_ns: "\<not> py_isspace (hd (sinal @ ds @ e2))"
    using sinal d dd by (auto simp: py_isspace_def digito_ascii_def)
  have nn: "sinal @ ds @ e2 \<noteq> []" using ne by simp
  have "dropWhile py_isspace (e1 @ (sinal @ ds @ e2)) = dropWhile py_isspace (sinal @ ds @ e2)"
    using e1 by (intro dropWhile_append2) simp
  also have "\<dots> = sinal @ ds @ e2"
    using hd_ns nn by (cases "sinal @ ds @ e2") auto
  finally have b1: "dropWhile py_isspace (e1 @ sinal @ ds @ e2) = sinal @ ds @ e2" by simp
  have tk: "takeWhile ?P (ds @ e2) = ds"
  proof -
    have "takeWhile ?P (ds @ e2) = ds @ takeWhile ?P e2"
      using ds by (intro takeWhile_append2) simp
    moreover have "takeWhile ?P e2 = []"
      using e2 by (intro takeWhile_nenhum) (auto simp: py_isspace_def digito_ascii_def)
    ultimately show ?thesis by simp
  qed
  have dr: "dropWhile ?P (ds @ e2) = e2"
  proof -
    have "dropWhile ?P (ds @ e2) = dropWhile ?P e2"
      using ds by (intro dropWhile_append2) simp
    moreover have "dropWhile ?P e2 = e2"
      using e2 by (intro dropWhile_nenhum) (auto simp: py_isspace_def digito_ascii_def)
    ultimately show ?thesis by simp
  qed
  have sp: "dropWhile py_isspace e2 = []" using e2 by simp
  have ok: "sublinhados_ok ds" using ne ds by (rule sublinhados_ok_digitos)
  have fl: "filter digito_ascii ds = ds" using ds by simp
  have d4: "d \<noteq> 43 \<and> d \<noteq> 45" using d by (auto simp: digito_ascii_def)
  have neg: "(case sinal @ ds @ e2 of [] \<Rightarrow> False | c # _ \<Rightarrow> c = 45) = (sinal = [45])"
    using sinal d4 by (auto simp: dd)
  have b2: "(case sinal @ ds @ e2 of [] \<Rightarrow> [] | c # r \<Rightarrow> if c = 43 \<or> c = 45 then r else sinal @ ds @ e2)
            = ds @ e2"
    using sinal d4 by (auto simp: dd)
  have lm: "\<not> (640 < length ds \<and> 0 < maxd \<and> maxd < length ds)" using lim by auto
  show ?thesis
    unfolding int_de_str_def Let_def m b1 neg b2 tk dr sp fl
    using ok lm by simp
qed

lemma valor_decimal_nao_negativo: "0 \<le> valor_decimal ds"
proof -
  have "0 \<le> a \<Longrightarrow> 0 \<le> foldl (\<lambda>a c. 10 * a + int (c - 48)) a ds" for a
    by (induction ds arbitrary: a) auto
  then show ?thesis by (simp add: valor_decimal_def)
qed

text \<open>
  C3. A score that \<open>int\<close> converts to \<open>n\<close> falls into the band of the first threshold it
  does not exceed (\<open>\<le> 20\<close>, \<open>\<le> 40\<close>, \<open>\<le> 60\<close>, \<open>\<le> 80\<close>, else the fifth); the inputs
  \<open>0, 20, 21, 40, 41, 60, 61, 80, 81, 100\<close> land in bands \<open>1, 1, 2, 2, 3, 3, 4, 4, 5, 5\<close>
  (positions \<open>0..4\<close> of \<open>faixas\<close>). A score that \<open>int\<close> rejects, the sentinel \<open>N/A\<close>
  among them, gets the label \<open>INDETERMINADO\<close>. No input makes the function raise, and
  the six labels are different from one another.
\<close>

theorem classificar_score_cinco_faixas:
  "(py_int U maxd v = Inr n \<longrightarrow>
      classificar_score U maxd v =
        Inr (faixas ! (if n \<le> 20 then 0 else if n \<le> 40 then 1 else if n \<le> 60 then 2
                       else if n \<le> 80 then 3 else 4)))
   \<and> (py_int U maxd v = Inl e \<longrightarrow> classificar_score U maxd v = Inr indeterminado)
   \<and> (\<exists>r. classificar_score U maxd v = Inr r)
   \<and> map (\<lambda>s. classificar_score U maxd (Str (ascii s)))
         [''0'', ''20'', ''21'', ''40'', ''41'', ''60'', ''61'', ''80'', ''81'', ''100'']
       = map (\<lambda>k. Inr (faixas ! k)) [0, 0, 1, 1, 2, 2, 3, 3, 4, 4]
   \<and> classificar_score U maxd (Str (ascii ''N/A'')) = Inr indeterminado
   \<and> distinct (map snd (indeterminado # faixas))"
proof (intro conjI impI)
  assume "py_int U maxd v = Inr n"
  then show "classificar_score U maxd v =
        Inr (faixas ! (if n \<le> 20 then 0 else if n \<le> 40 then 1 else if n \<le> 60 then 2
                       else if n \<le> 80 then 3 else 4))"
    by (simp add: classificar_score_def)
next
  assume "py_int U maxd v = Inl e"
  then show "classificar_score U maxd v = Inr indeterminado" by (rule classificar_score_erro)
next
  show "\<exists>r. classificar_score U maxd v = Inr r" by (rule classificar_score_total)
next
  show "map (\<lambda>s. classificar_score U maxd (Str (ascii s)))
         [''0'', ''20'', ''21'', ''40'', ''41'', ''60'', ''61'', ''80'', ''81'', ''100'']
       = map (\<lambda>k. Inr (faixas ! k)) [0, 0, 1, 1, 2, 2, 3, 3, 4, 4]"
    by code_simp
next
  show "classificar_score U maxd (Str (ascii ''N/A'')) = Inr indeterminado" by code_simp
next
  show "distinct (map snd (indeterminado # faixas))" by code_simp
qed

text \<open>The band of \<open>61\<close>, and the two ways a conversion fails.\<close>

theorem classificar_score_cinco_faixas_witness:
  "py_int latin1 4300 (Str (ascii ''61'')) = Inr 61
   \<and> classificar_score latin1 4300 (Str (ascii ''61'')) = Inr (faixas ! 3)
   \<and> py_int latin1 4300 (Str (ascii ''N/A'')) = Inl ValueError
   \<and> classificar_score latin1 4300 (Str (ascii ''N/A'')) = Inr indeterminado
   \<and> py_int latin1 4300 PyNone = Inl TypeError
   \<and> classificar_score latin1 4300 PyNone = Inr indeterminado"
proof -
  have a: "py_int latin1 4300 (Str (ascii ''61'')) = Inr 61" by code_simp
  have b: "py_int latin1 4300 (Str (ascii ''N/A'')) = Inl ValueError" by code_simp
  have c: "py_int latin1 4300 PyNone = Inl TypeError" by code_simp
  show ?thesis
    using a b c
      classificar_score_cinco_faixas [of latin1 4300 "Str (ascii ''61'')" 61]
      classificar_score_cinco_faixas [of latin1 4300 "Str (ascii ''N/A'')" _ ValueError]
      classificar_score_cinco_faixas [of latin1 4300 PyNone _ TypeError]
    by simp
qed

text \<open>
  C10. There is no range check: whatever \<open>int\<close> accepts is classified by the
  thresholds alone. A negative value is in the first band, a value above 80 in the
  fifth, however large. In particular a minus sign before any ASCII digits, with or
  without white space around, gives the first band, and digits worth more than 80,
  with or without a plus sign, the fifth (as long as \<open>int\<close> takes the literal, that is
  within the interpreter's digit limit).
\<close>

theorem classificar_score_sem_validacao_de_intervalo:
  "(py_int U maxd v = Inr n \<and> n < 0 \<longrightarrow> classificar_score U maxd v = Inr (faixas ! 0))
   \<and> (py_int U maxd v = Inr n \<and> 80 < n \<longrightarrow> classificar_score U maxd v = Inr (faixas ! 4))
   \<and> (ds \<noteq> [] \<and> (\<forall>c\<in>set ds. digito_ascii c)
        \<and> (\<forall>c\<in>set e1. py_isspace c) \<and> (\<forall>c\<in>set e2. py_isspace c)
        \<and> (maxd = 0 \<or> length ds \<le> maxd \<or> length ds \<le> 640) \<longrightarrow>
         py_int U maxd (Str (e1 @ [45] @ ds @ e2)) = Inr (- valor_decimal ds)
       \<and> classificar_score U maxd (Str (e1 @ [45] @ ds @ e2)) = Inr (faixas ! 0)
       \<and> py_int U maxd (Str (e1 @ [43] @ ds @ e2)) = Inr (valor_decimal ds)
       \<and> py_int U maxd (Str (e1 @ ds @ e2)) = Inr (valor_decimal ds)
       \<and> (80 < valor_decimal ds \<longrightarrow>
             classificar_score U maxd (Str (e1 @ [43] @ ds @ e2)) = Inr (faixas ! 4)
           \<and> classificar_score U maxd (Str (e1 @ ds @ e2)) = Inr (faixas ! 4)))
   \<and> snd (faixas ! 0) = ascii ''ALTAMENTE CONFI'' @ [193] @ ascii ''VEL''
   \<and> snd (faixas ! 4) = ascii ''DESINFORMA'' @ [199, 195] @ ascii ''O CONFIRMADA''"
proof (intro conjI impI)
  assume "py_int U maxd v = Inr n \<and> n < 0"
  then show "classificar_score U maxd v = Inr (faixas ! 0)" by (simp add: classificar_score_def)
next
  assume "py_int U maxd v = Inr n \<and> 80 < n"
  then show "classificar_score U maxd v = Inr (faixas ! 4)" by (simp add: classificar_score_def)
next
  show "snd (faixas ! 0) = ascii ''ALTAMENTE CONFI'' @ [193] @ ascii ''VEL''" by (simp add: faixas_def)
  show "snd (faixas ! 4) = ascii ''DESINFORMA'' @ [199, 195] @ ascii ''O CONFIRMADA''" by (simp add: faixas_def)
next
  assume h: "ds \<noteq> [] \<and> (\<forall>c\<in>set ds. digito_ascii c)
        \<and> (\<forall>c\<in>set e1. py_isspace c) \<and> (\<forall>c\<in>set e2. py_isspace c)
        \<and> (maxd = 0 \<or> length ds \<le> maxd \<or> length ds \<le> 640)"
  then have ne: "ds \<noteq> []" and ds: "\<forall>c\<in>set ds. digito_ascii c"
    and e1: "\<forall>c\<in>set e1. py_isspace c" and e2: "\<forall>c\<in>set e2. py_isspace c"
    and lm: "maxd = 0 \<or> length ds \<le> maxd \<or> length ds \<le> 640" by simp_all
  show m: "py_int U maxd (Str (e1 @ [45] @ ds @ e2)) = Inr (- valor_decimal ds)"
    using int_de_str_corpo [OF e1 e2 ne ds _ lm, of "[45]" U] by (simp add: py_int_def)
  show p: "py_int U maxd (Str (e1 @ [43] @ ds @ e2)) = Inr (valor_decimal ds)"
    using int_de_str_corpo [OF e1 e2 ne ds _ lm, of "[43]" U] by (simp add: py_int_def)
  show s: "py_int U maxd (Str (e1 @ ds @ e2)) = Inr (valor_decimal ds)"
    using int_de_str_corpo [OF e1 e2 ne ds _ lm, of "[]" U] by (simp add: py_int_def)
  show "classificar_score U maxd (Str (e1 @ [45] @ ds @ e2)) = Inr (faixas ! 0)"
    using valor_decimal_nao_negativo [of ds] m by (simp add: classificar_score_def)
  assume g: "80 < valor_decimal ds"
  show "classificar_score U maxd (Str (e1 @ [43] @ ds @ e2)) = Inr (faixas ! 4)"
    using g p by (simp add: classificar_score_def)
  show "classificar_score U maxd (Str (e1 @ ds @ e2)) = Inr (faixas ! 4)"
    using g s by (simp add: classificar_score_def)
qed

text \<open>\<open>" -5\n"\<close>, \<open>"+1000"\<close> and \<open>"1_000"\<close> are all accepted and classified.\<close>

theorem classificar_score_sem_validacao_de_intervalo_witness:
  "py_int latin1 4300 (Str (ascii '' -5'' @ [10])) = Inr (- 5)
   \<and> classificar_score latin1 4300 (Str (ascii '' -5'' @ [10])) = Inr (faixas ! 0)
   \<and> py_int latin1 4300 (Str (ascii ''+1000'')) = Inr 1000
   \<and> classificar_score latin1 4300 (Str (ascii ''+1000'')) = Inr (faixas ! 4)
   \<and> classificar_score latin1 4300 (Str (ascii ''1_000'')) = Inr (faixas ! 4)"
proof -
  have a: "py_int latin1 4300 (Str (ascii '' -5'' @ [10])) = Inr (- 5)" by code_simp
  have b: "py_int latin1 4300 (Str (ascii ''+1000'')) = Inr 1000" by code_simp
  have c: "py_int latin1 4300 (Str (ascii ''1_000'')) = Inr 1000" by code_simp
  have d: "ascii ''+1000'' = [] @ [43] @ ascii ''1000'' @ []" by (simp add: ascii_def)
  have e: "ascii ''1000'' \<noteq> [] \<and> (\<forall>c\<in>set (ascii ''1000''). digito_ascii c)
        \<and> (\<forall>c\<in>set ([]::nat list). py_isspace c) \<and> (\<forall>c\<in>set ([]::nat list). py_isspace c)
        \<and> ((4300::nat) = 0 \<or> length (ascii ''1000'') \<le> 4300 \<or> length (ascii ''1000'') \<le> 640)"
    by (simp add: ascii_def digito_ascii_def)
  have f: "80 < valor_decimal (ascii ''1000'')" by (simp add: ascii_def valor_decimal_def)
  show ?thesis
    using a b c e f
      classificar_score_sem_validacao_de_intervalo [of latin1 4300 "Str (ascii '' -5'' @ [10])" "- 5" "ascii ''1000''" "[]" "[]"]
      classificar_score_sem_validacao_de_intervalo [of latin1 4300 "Str (ascii ''1_000'')" 1000 "ascii ''1000''" "[]" "[]"]
    unfolding d by simp
qed

section \<open>Properties of \<open>determinar_badge_class\<close>\<close>

lemma upper_ascii:
  "\<forall>c\<in>set v. c < 128 \<Longrightarrow> upper U v = map (\<lambda>c. if 97 \<le> c \<and> c \<le> 122 then c - 32 else c) v"
  by (induction v) (simp_all add: upper_def maiuscula_def)

lemma determinar_badge_class_fechado:
  "determinar_badge_class U v \<in> set (map snd mapping_badge)"
proof (cases "map_of mapping_badge (upper U v)")
  case None
  then show ?thesis
    by (simp add: determinar_badge_class_def dict_get_def) (simp add: mapping_badge_def)
next
  case (Some b)
  then have "(upper U v, b) \<in> set mapping_badge" by (rule map_of_SomeD)
  then have "b \<in> set (map snd mapping_badge)" by force
  with Some show ?thesis by (simp add: determinar_badge_class_def dict_get_def)
qed

text \<open>
  C8. The badge depends on the verdict only through its upper-case form. Each of the
  six codes of the mapping gives its class, \<open>DESATUALIZADO\<close> sharing the class of
  \<open>INCONCLUSIVO\<close>; anything else gives \<open>badge-inconclusivo\<close>; the result is always
  one of the classes of the mapping, so no string makes the function fail. On ASCII
  input \<open>upper\<close> only raises the letters \<open>a..z\<close>, which is why the codes are matched
  whatever their case.
\<close>

theorem determinar_badge_class_mapeamento:
  "(upper U v = ascii ''VERDADEIRO'' \<longrightarrow> determinar_badge_class U v = ascii ''badge-verdadeiro'')
   \<and> (upper U v = ascii ''FALSO'' \<longrightarrow> determinar_badge_class U v = ascii ''badge-falso'')
   \<and> (upper U v = ascii ''PARCIAL'' \<longrightarrow> determinar_badge_class U v = ascii ''badge-parcial'')
   \<and> (upper U v = ascii ''CONTEXTO'' \<longrightarrow> determinar_badge_class U v = ascii ''badge-contexto'')
   \<and> (upper U v = ascii ''INCONCLUSIVO'' \<longrightarrow> determinar_badge_class U v = ascii ''badge-inconclusivo'')
   \<and> (upper U v = ascii ''DESATUALIZADO'' \<longrightarrow> determinar_badge_class U v = ascii ''badge-inconclusivo'')
   \<and> (upper U v \<notin> set (map fst mapping_badge) \<longrightarrow>
        determinar_badge_class U v = ascii ''badge-inconclusivo'')
   \<and> determinar_badge_class U v \<in> set (map snd mapping_badge)
   \<and> ((\<forall>c\<in>set v. c < 128) \<longrightarrow>
        upper U v = map (\<lambda>c. if 97 \<le> c \<and> c \<le> 122 then c - 32 else c) v)"
proof (intro conjI impI)
  assume "upper U v = ascii ''VERDADEIRO''"
  then show "determinar_badge_class U v = ascii ''badge-verdadeiro''"
    by (simp add: determinar_badge_class_def dict_get_def mapping_badge_def ascii_def)
next
  assume "upper U v = ascii ''FALSO''"
  then show "determinar_badge_class U v = ascii ''badge-falso''"
    by (simp add: determinar_badge_class_def dict_get_def mapping_badge_def ascii_def)
next
  assume "upper U v = ascii ''PARCIAL''"
  then show "determinar_badge_class U v = ascii ''badge-parcial''"
    by (simp add: determinar_badge_class_def dict_get_def mapping_badge_def ascii_def)
next
  assume "upper U v = ascii ''CONTEXTO''"
  then show "determinar_badge_class U v = ascii ''badge-contexto''"
    by (simp add: determinar_badge_class_def dict_get_def mapping_badge_def ascii_def)
next
  assume "upper U v = ascii ''INCONCLUSIVO''"
  then show "determinar_badge_class U v = ascii ''badge-inconclusivo''"
    by (simp add: determinar_badge_class_def dict_get_def mapping_badge_def ascii_def)
next
  assume "upper U v = ascii ''DESATUALIZADO''"
  then show "determinar_badge_class U v = ascii ''badge-inconclusivo''"
    by (simp add: determinar_badge_class_def dict_get_def mapping_badge_def ascii_def)
next
  assume "upper U v \<notin> set (map fst mapping_badge)"
  then have "map_of mapping_badge (upper U v) = None"
    by (simp add: map_of_eq_None_iff)
  then show "determinar_badge_class U v = ascii ''badge-inconclusivo''"
    by (simp add: determinar_badge_class_def dict_get_def)
next
  show "determinar_badge_class U v \<in> set (map snd mapping_badge)"
    by (rule determinar_badge_class_fechado)
next
  assume "\<forall>c\<in>set v. c < 128"
  then show "upper U v = map (\<lambda>c. if 97 \<le> c \<and> c \<le> 122 then c - 32 else c) v"
    by (rule upper_ascii)
qed

text \<open>A mixed-case code, a lower-case code, and the sentinel \<open>N/A\<close>, which is no code.\<close>

theorem determinar_badge_class_mapeamento_witness:
  "upper latin1 (ascii ''Falso'') = ascii ''FALSO''
   \<and> determinar_badge_class latin1 (ascii ''Falso'') = ascii ''badge-falso''
   \<and> upper latin1 (ascii ''desatualizado'') = ascii ''DESATUALIZADO''
   \<and> determinar_badge_class latin1 (ascii ''desatualizado'') = ascii ''badge-inconclusivo''
   \<and> upper latin1 (ascii ''N/A'') \<notin> set (map fst mapping_badge)
   \<and> determinar_badge_class latin1 (ascii ''N/A'') = ascii ''badge-inconclusivo''"
proof -
  have a: "upper latin1 (ascii ''Falso'') = ascii ''FALSO''" by code_simp
  have b: "upper latin1 (ascii ''desatualizado'') = ascii ''DESATUALIZADO''" by code_simp
  have c: "upper latin1 (ascii ''N/A'') \<notin> set (map fst mapping_badge)" by code_simp
  have a': "determinar_badge_class latin1 (ascii ''Falso'') = ascii ''badge-falso''"
    using determinar_badge_class_mapeamento [of latin1 "ascii ''Falso''"] a by simp
  have b': "determinar_badge_class latin1 (ascii ''desatualizado'') = ascii ''badge-inconclusivo''"
    using determinar_badge_class_mapeamento [of latin1 "ascii ''desatualizado''"] b by simp
  have c': "determinar_badge_class latin1 (ascii ''N/A'') = ascii ''badge-inconclusivo''"
    using determinar_badge_class_mapeamento [of latin1 "ascii ''N/A''"] c by simp
  from a b c a' b' c' show ?thesis by (intro conjI)
qed

section \<open>Properties of \<open>extrair_metricas\<close>\<close>

text \<open>
  A group that lies on every path of a pattern is captured in every match, and a
  group once captured stays captured.
\<close>

lemma casa_mantem:
  "(ys, g') \<in> set (casa U r (xs, g)) \<Longrightarrow> map_of g n = Some s \<Longrightarrow> \<exists>s'. map_of g' n = Some s'"
proof (induction r arbitrary: xs g ys g' s)
  case Vazio
  then show ?case by simp
next
  case (Atomo a)
  then show ?case by (auto split: list.splits if_splits)
next
  case (Estrela a)
  then show ?case by auto
next
  case (Mais a)
  then show ?case by auto
next
  case (Opc r)
  then show ?case by auto
next
  case (Conc r1 r2)
  from Conc.prems(1) obtain zs g1 where
    m1: "(zs, g1) \<in> set (casa U r1 (xs, g))" and m2: "(ys, g') \<in> set (casa U r2 (zs, g1))"
    by auto
  from Conc.IH(1) [OF m1 Conc.prems(2)] obtain s1 where "map_of g1 n = Some s1" by blast
  from Conc.IH(2) [OF m2 this] show ?case .
next
  case (Grupo k r)
  from Grupo.prems(1) obtain g2 where
    m: "(ys, g2) \<in> set (casa U r (xs, g))" and g': "g' = (k, take (length xs - length ys) xs) # g2"
    by auto
  from Grupo.IH [OF m Grupo.prems(2)] obtain s2 where "map_of g2 n = Some s2" by blast
  with g' show ?case by simp
qed

lemma casa_captura:
  "captura n r \<Longrightarrow> (ys, g') \<in> set (casa U r (xs, g)) \<Longrightarrow> \<exists>s. map_of g' n = Some s"
proof (induction r arbitrary: xs g ys g')
  case (Conc r1 r2)
  from Conc.prems(2) obtain zs g1 where
    m1: "(zs, g1) \<in> set (casa U r1 (xs, g))" and m2: "(ys, g') \<in> set (casa U r2 (zs, g1))"
    by auto
  show ?case
  proof (cases "captura n r1")
    case True
    from Conc.IH(1) [OF True m1] obtain s1 where "map_of g1 n = Some s1" by blast
    from casa_mantem [OF m2 this] show ?thesis .
  next
    case False
    with Conc.prems(1) have "captura n r2" by simp
    from Conc.IH(2) [OF this m2] show ?thesis .
  qed
next
  case (Grupo k r)
  from Grupo.prems(2) obtain g2 where
    m: "(ys, g2) \<in> set (casa U r (xs, g))" and g': "g' = (k, take (length xs - length ys) xs) # g2"
    by auto
  show ?case
  proof (cases "k = n")
    case True
    with g' show ?thesis by simp
  next
    case False
    with Grupo.prems(1) have "captura n r" by simp
    from Grupo.IH [OF this m] obtain s2 where "map_of g2 n = Some s2" by blast
    with g' show ?thesis by simp
  qed
qed simp_all

lemma re_search_casa:
  "re_search U r texto = Some g \<Longrightarrow> \<exists>xs ys. (ys, g) \<in> set (casa U r (xs, []))"
proof (induction texto)
  case Nil
  then obtain ys sts where "casa U r ([], []) = (ys, g) # sts"
    by (auto split: list.splits)
  then have "(ys, g) \<in> set (casa U r ([], []))" by simp
  then show ?case by blast
next
  case (Cons c cs)
  show ?case
  proof (cases "casa U r (c # cs, [])")
    case Nil
    with Cons show ?thesis by simp
  next
    case (Cons st sts)
    with Cons.prems have "st = (fst st, g)" by (cases st) auto
    with Cons have "(fst st, g) \<in> set (casa U r (c # cs, []))" by (metis list.set_intros(1))
    then show ?thesis by blast
  qed
qed

lemma re_search_captura:
  "captura n r \<Longrightarrow> re_search U r texto = Some g \<Longrightarrow> \<exists>s. map_of g n = Some s"
  using re_search_casa casa_captura by blast

lemma padroes_grupos:
  "1 \<le> n_grupos padrao_score" "1 \<le> n_grupos padrao_confianca"
  "1 \<le> n_grupos padrao_veredito" "1 \<le> n_grupos padrao_conspir"
  by (simp_all add: padrao_score_def padrao_confianca_def padrao_veredito_def padrao_conspir_def)

lemma padroes_capturam:
  "captura 1 padrao_score" "captura 1 padrao_confianca"
  "captura 1 padrao_veredito" "captura 1 padrao_conspir"
  by (simp_all add: padrao_score_def padrao_confianca_def padrao_veredito_def padrao_conspir_def)

lemma passo_score:
  "1 \<le> n_grupos p \<Longrightarrow>
   passo U p texto (\<lambda>v m. m\<lparr>score := v\<rparr>) m =
   Inr (m\<lparr>score := (case re_search U p texto of None \<Rightarrow> score m
                      | Some g \<Rightarrow> (case map_of g 1 of None \<Rightarrow> PyNone | Some s \<Rightarrow> Str s))\<rparr>)"
  by (cases "re_search U p texto") (simp_all add: passo_def group_def entao_def)

lemma passo_confianca:
  "1 \<le> n_grupos p \<Longrightarrow>
   passo U p texto (\<lambda>v m. m\<lparr>confianca := v\<rparr>) m =
   Inr (m\<lparr>confianca := (case re_search U p texto of None \<Rightarrow> confianca m
                      | Some g \<Rightarrow> (case map_of g 1 of None \<Rightarrow> PyNone | Some s \<Rightarrow> Str s))\<rparr>)"
  by (cases "re_search U p texto") (simp_all add: passo_def group_def entao_def)

lemma passo_veredito:
  "1 \<le> n_grupos p \<Longrightarrow>
   passo U p texto (\<lambda>v m. m\<lparr>veredito := v\<rparr>) m =
   Inr (m\<lparr>veredito := (case re_search U p texto of None \<Rightarrow> veredito m
                      | Some g \<Rightarrow> (case map_of g 1 of None \<Rightarrow> PyNone | Some s \<Rightarrow> Str s))\<rparr>)"
  by (cases "re_search U p texto") (simp_all add: passo_def group_def entao_def)

lemma passo_conspir_media:
  "1 \<le> n_grupos p \<Longrightarrow>
   passo U p texto (\<lambda>v m. m\<lparr>conspir_media := Str (formata v @ ascii ''/10'')\<rparr>) m =
   Inr (m\<lparr>conspir_media := (case re_search U p texto of None \<Rightarrow> conspir_media m
                      | Some g \<Rightarrow> Str (formata (case map_of g 1 of None \<Rightarrow> PyNone | Some s \<Rightarrow> Str s)
                                         @ ascii ''/10''))\<rparr>)"
  by (cases "re_search U p texto") (simp_all add: passo_def group_def entao_def)

lemma extrair_metricas_campos:
  "extrair_metricas U (Str texto) = Inr
     \<lparr>score = (case re_search U padrao_score texto of None \<Rightarrow> Str nao_disponivel
                | Some g \<Rightarrow> (case map_of g 1 of None \<Rightarrow> PyNone | Some s \<Rightarrow> Str s)),
      confianca = (case re_search U padrao_confianca texto of None \<Rightarrow> Str nao_disponivel
                | Some g \<Rightarrow> (case map_of g 1 of None \<Rightarrow> PyNone | Some s \<Rightarrow> Str s)),
      veredito = (case re_search U padrao_veredito texto of None \<Rightarrow> Str nao_disponivel
                | Some g \<Rightarrow> (case map_of g 1 of None \<Rightarrow> PyNone | Some s \<Rightarrow> Str s)),
      conspir_media = (case re_search U padrao_conspir texto of None \<Rightarrow> Str nao_disponivel
                | Some g \<Rightarrow> Str (formata (case map_of g 1 of None \<Rightarrow> PyNone | Some s \<Rightarrow> Str s)
                                   @ ascii ''/10''))\<rparr>"
  unfolding extrair_metricas_def valor.case
    passo_score [OF padroes_grupos(1)] passo_confianca [OF padroes_grupos(2)]
    passo_veredito [OF padroes_grupos(3)] passo_conspir_media [OF padroes_grupos(4)]
  by (simp add: entao_def cong: option.case_cong)

lemma campo_extraido:
  assumes "captura 1 p"
  shows "(re_search U p texto = None \<longrightarrow>
            (case re_search U p texto of None \<Rightarrow> Str nao_disponivel
             | Some g \<Rightarrow> (case map_of g 1 of None \<Rightarrow> PyNone | Some s \<Rightarrow> Str s)) = Str nao_disponivel)
       \<and> (\<forall>g. re_search U p texto = Some g \<longrightarrow>
            (\<exists>s. map_of g 1 = Some s \<and>
              (case re_search U p texto of None \<Rightarrow> Str nao_disponivel
               | Some g \<Rightarrow> (case map_of g 1 of None \<Rightarrow> PyNone | Some s \<Rightarrow> Str s)) = Str s))"
proof (cases "re_search U p texto")
  case None
  then show ?thesis by simp
next
  case (Some g)
  from re_search_captura [OF assms Some] obtain s where "map_of g 1 = Some s" by blast
  with Some show ?thesis by simp
qed

lemma campo_conspir_extraido:
  assumes "captura 1 p"
  shows "(re_search U p texto = None \<longrightarrow>
            (case re_search U p texto of None \<Rightarrow> Str nao_disponivel
             | Some g \<Rightarrow> Str (formata (case map_of g 1 of None \<Rightarrow> PyNone | Some s \<Rightarrow> Str s)
                                @ ascii ''/10'')) = Str nao_disponivel)
       \<and> (\<forall>g. re_search U p texto = Some g \<longrightarrow>
            (\<exists>s. map_of g 1 = Some s \<and>
              (case re_search U p texto of None \<Rightarrow> Str nao_disponivel
               | Some g \<Rightarrow> Str (formata (case map_of g 1 of None \<Rightarrow> PyNone | Some s \<Rightarrow> Str s)
                                  @ ascii ''/10'')) = Str (s @ ascii ''/10'')))"
proof (cases "re_search U p texto")
  case None
  then show ?thesis by simp
next
  case (Some g)
  from re_search_captura [OF assms Some] obtain s where "map_of g 1 = Some s" by blast
  with Some show ?thesis by (simp add: formata_def)
qed

lemma campo_str:
  "(re_search U p texto = None \<longrightarrow> v = Str a) \<and>
   (\<forall>g. re_search U p texto = Some g \<longrightarrow> (\<exists>s. map_of g 1 = Some s \<and> v = Str (f s)))
   \<Longrightarrow> \<exists>b. v = Str b"
  by (cases "re_search U p texto") auto

text \<open>
  C2. On every string, the empty one and arbitrary code points included, the
  extraction returns a record of four strings and raises nothing. Each field is
  decided by the search of its own pattern alone: \<open>N/A\<close> when that pattern is not
  found, the text of its group 1 when it is (followed by \<open>/10\<close> for the composite
  sub-score), whatever the other three searches give.
\<close>

theorem extrair_metricas_total:
  "\<exists>m. extrair_metricas U (Str texto) = Inr m
     \<and> (\<exists>a b c d. score m = Str a \<and> confianca m = Str b \<and> veredito m = Str c
                  \<and> conspir_media m = Str d)
     \<and> (re_search U padrao_score texto = None \<longrightarrow> score m = Str nao_disponivel)
     \<and> (\<forall>g. re_search U padrao_score texto = Some g \<longrightarrow>
              (\<exists>s. map_of g 1 = Some s \<and> score m = Str s))
     \<and> (re_search U padrao_confianca texto = None \<longrightarrow> confianca m = Str nao_disponivel)
     \<and> (\<forall>g. re_search U padrao_confianca texto = Some g \<longrightarrow>
              (\<exists>s. map_of g 1 = Some s \<and> confianca m = Str s))
     \<and> (re_search U padrao_veredito texto = None \<longrightarrow> veredito m = Str nao_disponivel)
     \<and> (\<forall>g. re_search U padrao_veredito texto = Some g \<longrightarrow>
              (\<exists>s. map_of g 1 = Some s \<and> veredito m = Str s))
     \<and> (re_search U padrao_conspir texto = None \<longrightarrow> conspir_media m = Str nao_disponivel)
     \<and> (\<forall>g. re_search U padrao_conspir texto = Some g \<longrightarrow>
              (\<exists>s. map_of g 1 = Some s \<and> conspir_media m = Str (s @ ascii ''/10'')))"
proof -
  define m where "m =
     \<lparr>score = (case re_search U padrao_score texto of None \<Rightarrow> Str nao_disponivel
                | Some g \<Rightarrow> (case map_of g 1 of None \<Rightarrow> PyNone | Some s \<Rightarrow> Str s)),
      confianca = (case re_search U padrao_confianca texto of None \<Rightarrow> Str nao_disponivel
                | Some g \<Rightarrow> (case map_of g 1 of None \<Rightarrow> PyNone | Some s \<Rightarrow> Str s)),
      veredito = (case re_search U padrao_veredito texto of None \<Rightarrow> Str nao_disponivel
                | Some g \<Rightarrow> (case map_of g 1 of None \<Rightarrow> PyNone | Some s \<Rightarrow> Str s)),
      conspir_media = (case re_search U padrao_conspir texto of None \<Rightarrow> Str nao_disponivel
                | Some g \<Rightarrow> Str (formata (case map_of g 1 of None \<Rightarrow> PyNone | Some s \<Rightarrow> Str s)
                                   @ ascii ''/10''))\<rparr>"
  have ex: "extrair_metricas U (Str texto) = Inr m"
    unfolding m_def by (rule extrair_metricas_campos)
  have sc: "(re_search U padrao_score texto = None \<longrightarrow> score m = Str nao_disponivel)
     \<and> (\<forall>g. re_search U padrao_score texto = Some g \<longrightarrow> (\<exists>s. map_of g 1 = Some s \<and> score m = Str s))"
    using campo_extraido [OF padroes_capturam(1), of U texto] by (simp add: m_def)
  have cf: "(re_search U padrao_confianca texto = None \<longrightarrow> confianca m = Str nao_disponivel)
     \<and> (\<forall>g. re_search U padrao_confianca texto = Some g \<longrightarrow> (\<exists>s. map_of g 1 = Some s \<and> confianca m = Str s))"
    using campo_extraido [OF padroes_capturam(2), of U texto] by (simp add: m_def)
  have vd: "(re_search U padrao_veredito texto = None \<longrightarrow> veredito m = Str nao_disponivel)
     \<and> (\<forall>g. re_search U padrao_veredito texto = Some g \<longrightarrow> (\<exists>s. map_of g 1 = Some s \<and> veredito m = Str s))"
    using campo_extraido [OF padroes_capturam(3), of U texto] by (simp add: m_def)
  have cm: "(re_search U padrao_conspir texto = None \<longrightarrow> conspir_media m = Str nao_disponivel)
     \<and> (\<forall>g. re_search U padrao_conspir texto = Some g \<longrightarrow>
            (\<exists>s. map_of g 1 = Some s \<and> conspir_media m = Str (s @ ascii ''/10'')))"
    using campo_conspir_extraido [OF padroes_capturam(4), of U texto] by (simp add: m_def)
  obtain a where a: "score m = Str a" using campo_str [of U padrao_score texto "score m" nao_disponivel "\<lambda>s. s"] sc by blast
  obtain b where b: "confianca m = Str b" using campo_str [of U padrao_confianca texto "confianca m" nao_disponivel "\<lambda>s. s"] cf by blast
  obtain c where c: "veredito m = Str c" using campo_str [of U padrao_veredito texto "veredito m" nao_disponivel "\<lambda>s. s"] vd by blast
  obtain d where d: "conspir_media m = Str d"
    using campo_str [of U padrao_conspir texto "conspir_media m" nao_disponivel "\<lambda>s. s @ ascii ''/10''"] cm by blast
  from a b c d have strs: "\<exists>a b c d. score m = Str a \<and> confianca m = Str b \<and> veredito m = Str c
                  \<and> conspir_media m = Str d" by blast
  from ex strs sc cf vd cm show ?thesis by (intro exI [of _ m] conjI) (elim conjE; assumption)+
qed

text \<open>
  A report with the score and the verdict lines only: those two fields are
  extracted, the other two are \<open>N/A\<close>.
\<close>

theorem extrair_metricas_total_witness:
  "\<exists>m. extrair_metricas latin1
          (Str (ascii ''SCORE_DESINFORMACAO: 95'' @ [10] @ ascii ''VEREDITO_CODIGO: FALSO'')) = Inr m
     \<and> score m = Str (ascii ''95'') \<and> confianca m = Str nao_disponivel
     \<and> veredito m = Str (ascii ''FALSO'') \<and> conspir_media m = Str nao_disponivel"
proof -
  let ?t = "ascii ''SCORE_DESINFORMACAO: 95'' @ [10] @ ascii ''VEREDITO_CODIGO: FALSO''"
  have r1: "re_search latin1 padrao_score ?t = Some [(1, ascii ''95'')]" by code_simp
  have r2: "re_search latin1 padrao_confianca ?t = None" by code_simp
  have r3: "re_search latin1 padrao_veredito ?t = Some [(1, ascii ''FALSO'')]" by code_simp
  have r4: "re_search latin1 padrao_conspir ?t = None" by code_simp
  from extrair_metricas_total [of latin1 ?t] obtain m where
    ex: "extrair_metricas latin1 (Str ?t) = Inr m"
    and s1: "\<forall>g. re_search latin1 padrao_score ?t = Some g \<longrightarrow> (\<exists>s. map_of g 1 = Some s \<and> score m = Str s)"
    and n2: "re_search latin1 padrao_confianca ?t = None \<longrightarrow> confianca m = Str nao_disponivel"
    and s3: "\<forall>g. re_search latin1 padrao_veredito ?t = Some g \<longrightarrow> (\<exists>s. map_of g 1 = Some s \<and> veredito m = Str s)"
    and n4: "re_search latin1 padrao_conspir ?t = None \<longrightarrow> conspir_media m = Str nao_disponivel"
    by (elim exE conjE)
  from s1 [rule_format, OF r1] have a: "score m = Str (ascii ''95'')" by simp
  from s3 [rule_format, OF r3] have c: "veredito m = Str (ascii ''FALSO'')" by simp
  from n2 [rule_format, OF r2] have b: "confianca m = Str nao_disponivel" .
  from n4 [rule_format, OF r4] have d: "conspir_media m = Str nao_disponivel" .
  from ex a b c d show ?thesis by (intro exI [of _ m] conjI)
qed

text \<open>
  C6. The report template of the system prompt asks the model for the composite row
  \<^verbatim>\<open>| **MEDIA CONSPIR** | **X/10** | |\<close> (the \<open>E\<close> is U+00C9), with the label in bold. The pattern
  allows the two asterisks before the number but not the two that close the label:
  after \<open>CONSPIR\<close> it wants white space and the bar. On the row written as the
  template asks, with \<open>7.5/10\<close>, the pattern is not found and the field stays
  \<open>N/A\<close>; the same row without the bold label gives \<open>7.5/10\<close>; a line with
  \<open>M\<close>, U+00C9, \<open>DIA\<close> and a fraction but not the exact label gives \<open>N/A\<close>.
\<close>

theorem extrair_metricas_linha_do_modelo:
  "re_search U padrao_conspir (ascii ''| **M'' @ [201] @ ascii ''DIA CONSPIR** | **7.5/10** | |'') = None
   \<and> extrair_metricas U (Str (ascii ''| **M'' @ [201] @ ascii ''DIA CONSPIR** | **7.5/10** | |''))
       = Inr \<lparr>score = Str nao_disponivel, confianca = Str nao_disponivel,
              veredito = Str nao_disponivel, conspir_media = Str nao_disponivel\<rparr>
   \<and> extrair_metricas U (Str (ascii ''| M'' @ [201] @ ascii ''DIA CONSPIR | **7.5/10** | |''))
       = Inr \<lparr>score = Str nao_disponivel, confianca = Str nao_disponivel,
              veredito = Str nao_disponivel, conspir_media = Str (ascii ''7.5/10'')\<rparr>
   \<and> extrair_metricas U (Str (ascii ''M'' @ [201] @ ascii ''DIA: 7.5/10''))
       = Inr \<lparr>score = Str nao_disponivel, confianca = Str nao_disponivel,
              veredito = Str nao_disponivel, conspir_media = Str nao_disponivel\<rparr>"
  by code_simp

end
